theory Spec2Isabelle
  imports Complex_Main
begin

section \<open>Python values and their string forms\<close>

text \<open>
  The retrieval and memory code passes around Python dictionaries whose values have
  no fixed type (\<^verbatim>\<open>Dict[str, Any]\<close>).  The values that occur are modelled by
  \<open>pyval\<close>: \<^verbatim>\<open>None\<close>, integers, strings, lists and dictionaries with string
  keys.  A dictionary is an association list in insertion order, since Python
  dictionaries iterate in insertion order.  A character is a code point below 256.
\<close>

datatype pyval =
    PNone
  | PInt int
  | PStr string
  | PList "pyval list"
  | PDict "(string \<times> pyval) list"

datatype error = KeyError | IndexError | TypeError | AttributeError | ZeroDivisionError

text \<open>\<^verbatim>\<open>sep.join(xs)\<close>\<close>

fun join :: "string \<Rightarrow> string list \<Rightarrow> string" where
  "join sep [] = []"
| "join sep [x] = x"
| "join sep (x # y # ys) = x @ sep @ join sep (y # ys)"

text \<open>\<^verbatim>\<open>str(i)\<close> for an integer: its decimal digits, with a minus sign when negative.\<close>

definition digit_char :: "nat \<Rightarrow> char" where
  "digit_char d = char_of (48 + d)"

fun str_nat :: "nat \<Rightarrow> string" where
  "str_nat n = (if n < 10 then [digit_char n] else str_nat (n div 10) @ [digit_char (n mod 10)])"

declare str_nat.simps [simp del]

definition str_int :: "int \<Rightarrow> string" where
  "str_int i = (if i < 0 then CHR ''-'' # str_nat (nat (- i)) else str_nat (nat i))"

text \<open>
  \<^verbatim>\<open>repr(s)\<close> for a string: single quotes, unless the string holds a single quote
  and no double quote; the quote character and the backslash are escaped, tab, newline
  and carriage return are written \<^verbatim>\<open>\t \n \r\<close>, every other character that is not
  printable is written \<^verbatim>\<open>\xhh\<close>.
\<close>

definition hex_char :: "nat \<Rightarrow> char" where
  "hex_char d = (if d < 10 then char_of (48 + d) else char_of (87 + d))"

definition py_printable :: "char \<Rightarrow> bool" where
  "py_printable c =
     (let n = (of_char c :: nat) in (32 \<le> n \<and> n < 127) \<or> (161 \<le> n \<and> n \<noteq> 173))"

definition repr_char :: "char \<Rightarrow> char \<Rightarrow> string" where
  "repr_char q c =
     (if c = q \<or> c = CHR 0x5C then [CHR 0x5C, c]
      else if c = CHR 0x09 then [CHR 0x5C, CHR ''t'']
      else if c = CHR 0x0A then [CHR 0x5C, CHR ''n'']
      else if c = CHR 0x0D then [CHR 0x5C, CHR ''r'']
      else if \<not> py_printable c then
        [CHR 0x5C, CHR ''x'', hex_char (of_char c div 16), hex_char (of_char c mod 16)]
      else [c])"

definition repr_str :: "string \<Rightarrow> string" where
  "repr_str s =
     (let q = (if CHR 0x27 \<in> set s \<and> CHR 0x22 \<notin> set s then CHR 0x22 else CHR 0x27)
      in q # concat (map (repr_char q) s) @ [q])"

fun py_repr :: "pyval \<Rightarrow> string" where
  "py_repr PNone = ''None''"
| "py_repr (PInt i) = str_int i"
| "py_repr (PStr s) = repr_str s"
| "py_repr (PList xs) = ''['' @ join '', '' (map py_repr xs) @ '']''"
| "py_repr (PDict kvs) =
     ''{'' @ join '', '' (map (\<lambda>(k, v). repr_str k @ '': '' @ py_repr v) kvs) @ ''}''"

text \<open>\<^verbatim>\<open>str(v)\<close>: a string is itself, everything else is its \<^verbatim>\<open>repr\<close>.\<close>

fun py_str :: "pyval \<Rightarrow> string" where
  "py_str (PStr s) = s"
| "py_str v = py_repr v"

text \<open>
  \<^verbatim>\<open>d[k] = v\<close> on an insertion-ordered dictionary: an existing key keeps its
  place and takes the new value, a new key goes to the end.  \<^verbatim>\<open>d.update(e)\<close>
  stores the entries of \<open>e\<close> one after the other.
\<close>

fun dict_set :: "('k \<times> 'v) list \<Rightarrow> 'k \<Rightarrow> 'v \<Rightarrow> ('k \<times> 'v) list" where
  "dict_set [] k v = [(k, v)]"
| "dict_set ((k', v') # d) k v = (if k' = k then (k, v) # d else (k', v') # dict_set d k v)"

fun dict_update :: "('k \<times> 'v) list \<Rightarrow> ('k \<times> 'v) list \<Rightarrow> ('k \<times> 'v) list" where
  "dict_update d [] = d"
| "dict_update d ((k, v) # e) = dict_update (dict_set d k v) e"

text \<open>
  Slices.  \<^verbatim>\<open>xs[:n]\<close> keeps the first \<open>n\<close> entries, and for a negative \<open>n\<close>
  all but the last \<open>-n\<close>.  \<^verbatim>\<open>xs[i:]\<close> drops the first \<open>i\<close> entries, and for a
  negative \<open>i\<close> keeps the last \<open>-i\<close>.
\<close>

definition slice_to :: "'a list \<Rightarrow> int \<Rightarrow> 'a list" where
  "slice_to xs n = (if 0 \<le> n then take (nat n) xs else take (nat (int (length xs) + n)) xs)"

definition slice_from :: "'a list \<Rightarrow> int \<Rightarrow> 'a list" where
  "slice_from xs i = (if 0 \<le> i then drop (nat i) xs else drop (nat (int (length xs) + i)) xs)"


section \<open>Conversation memory (\<^verbatim>\<open>src/utils/conversation_memory.py\<close>)\<close>

text \<open>
  The metadata dictionary of a message.  The keys that the memory reads are fields
  of their own, absent when \<open>None\<close>; every other key (such as \<^verbatim>\<open>query_type\<close>) is
  kept in \<open>md_other\<close>.  The confidence is a Python float that is stored and never
  computed with; it is modelled as a rational.
\<close>

record metadata =
  md_patient_info :: "(string \<times> pyval) list option"
  md_symptoms :: "string list option"
  md_diagnosis :: "string option"
  md_confidence :: "rat option"
  md_medications :: "string list option"
  md_other :: "(string \<times> pyval) list"

definition empty_metadata :: metadata where
  "empty_metadata =
     \<lparr>md_patient_info = None, md_symptoms = None, md_diagnosis = None,
      md_confidence = None, md_medications = None, md_other = []\<rparr>"

text \<open>The truth value of a metadata dictionary: it has at least one key.\<close>

definition md_truthy :: "metadata \<Rightarrow> bool" where
  "md_truthy md = (md \<noteq> empty_metadata)"

record message =
  timestamp :: string
  role :: string
  content :: string
  metadata :: metadata

record diagnosis_record =
  d_diagnosis :: string
  d_confidence :: rat
  d_timestamp :: string

text \<open>
  The patient context of a session is a dictionary.  \<open>create_session\<close> stores it
  with its five keys; \<open>get_patient_context\<close> and \<open>export_session\<close> give the empty
  dictionary for a session without one, and \<open>import_session\<close> stores whatever it is
  given.  So every key is optional: the empty dictionary has all fields \<open>None\<close>.
\<close>

record patient_context =
  patient_info :: "(string \<times> pyval) list option"
  symptoms_mentioned :: "string list option"
  diagnoses_received :: "diagnosis_record list option"
  medications_mentioned :: "string list option"
  created_at :: "string option"

definition empty_context :: patient_context where
  "empty_context =
     \<lparr>patient_info = None, symptoms_mentioned = None, diagnoses_received = None,
      medications_mentioned = None, created_at = None\<rparr>"

record memory =
  conversations :: "string \<rightharpoonup> message list"
  patient_contexts :: "string \<rightharpoonup> patient_context"

text \<open>\<^verbatim>\<open>ConversationMemory.__init__\<close>\<close>

definition init_memory :: memory where
  "init_memory = \<lparr>conversations = Map.empty, patient_contexts = Map.empty\<rparr>"

text \<open>
  \<^verbatim>\<open>datetime.now().isoformat()\<close> is read at three places during one
  \<open>add_message\<close>: in \<open>create_session\<close>, for the message, and for a diagnosis record.
  The three readings are inputs of the model.
\<close>

record readings =
  t_created :: string
  t_message :: string
  t_diagnosis :: string

definition create_session :: "string \<Rightarrow> memory \<Rightarrow> string \<Rightarrow> memory" where
  "create_session now m session_id =
     (if conversations m session_id = None then
        m\<lparr>conversations := (conversations m)(session_id \<mapsto> []),
          patient_contexts := (patient_contexts m)(session_id \<mapsto>
            \<lparr>patient_info = Some [], symptoms_mentioned = Some [],
             diagnoses_received = Some [], medications_mentioned = Some [],
             created_at = Some now\<rparr>)\<rparr>
      else m)"

text \<open>
  The loop \<^verbatim>\<open>for x in xs: if x not in acc: acc.append(x)\<close> of the symptom and
  medication tracking.
\<close>

fun append_new :: "'a list \<Rightarrow> 'a list \<Rightarrow> 'a list" where
  "append_new [] acc = acc"
| "append_new (x # xs) acc = append_new xs (if x \<in> set acc then acc else acc @ [x])"

text \<open>
  The four blocks of \<open>_update_patient_context\<close>.  Each one reads its key of the
  context with \<^verbatim>\<open>context[...]\<close>, which raises \<open>KeyError\<close> when the key is
  missing; the loops read it in their body, so an empty list raises nothing.
\<close>

definition track_patient_info :: "metadata \<Rightarrow> patient_context \<Rightarrow> error + patient_context" where
  "track_patient_info md ctx =
     (case md_patient_info md of
        None \<Rightarrow> Inr ctx
      | Some new \<Rightarrow>
          (case patient_info ctx of
             None \<Rightarrow> Inl KeyError
           | Some info \<Rightarrow> Inr (ctx\<lparr>patient_info := Some (dict_update info new)\<rparr>)))"

definition track_symptoms :: "metadata \<Rightarrow> patient_context \<Rightarrow> error + patient_context" where
  "track_symptoms md ctx =
     (case md_symptoms md of
        None \<Rightarrow> Inr ctx
      | Some symptoms \<Rightarrow>
          (case symptoms_mentioned ctx of
             None \<Rightarrow> (if symptoms = [] then Inr ctx else Inl KeyError)
           | Some seen \<Rightarrow> Inr (ctx\<lparr>symptoms_mentioned := Some (append_new symptoms seen)\<rparr>)))"

definition track_diagnosis :: "string \<Rightarrow> metadata \<Rightarrow> patient_context \<Rightarrow> error + patient_context" where
  "track_diagnosis now md ctx =
     (case md_diagnosis md of
        None \<Rightarrow> Inr ctx
      | Some diagnosis \<Rightarrow>
          (case diagnoses_received ctx of
             None \<Rightarrow> Inl KeyError
           | Some ds \<Rightarrow>
               Inr (ctx\<lparr>diagnoses_received := Some (ds @
                 [\<lparr>d_diagnosis = diagnosis,
                   d_confidence = (case md_confidence md of None \<Rightarrow> 0 | Some c \<Rightarrow> c),
                   d_timestamp = now\<rparr>])\<rparr>)))"

definition track_medications :: "metadata \<Rightarrow> patient_context \<Rightarrow> error + patient_context" where
  "track_medications md ctx =
     (case md_medications md of
        None \<Rightarrow> Inr ctx
      | Some meds \<Rightarrow>
          (case medications_mentioned ctx of
             None \<Rightarrow> (if meds = [] then Inr ctx else Inl KeyError)
           | Some seen \<Rightarrow> Inr (ctx\<lparr>medications_mentioned := Some (append_new meds seen)\<rparr>)))"

text \<open>
  The blocks run one after the other on the same dictionary.  When one raises, the
  changes of the blocks before it stay: the result is the context as it is at that
  point, with the error.
\<close>

fun then_block ::
  "patient_context \<times> error option \<Rightarrow> (patient_context \<Rightarrow> error + patient_context)
     \<Rightarrow> patient_context \<times> error option" where
  "then_block (ctx, Some e) f = (ctx, Some e)"
| "then_block (ctx, None) f = (case f ctx of Inl e \<Rightarrow> (ctx, Some e) | Inr ctx' \<Rightarrow> (ctx', None))"

definition update_context :: "string \<Rightarrow> metadata \<Rightarrow> patient_context \<Rightarrow> patient_context \<times> error option" where
  "update_context now md ctx =
     then_block (then_block (then_block (then_block (ctx, None)
       (track_patient_info md)) (track_symptoms md)) (track_diagnosis now md))
       (track_medications md)"

text \<open>\<open>_update_patient_context\<close>: the lookup of the session's context can raise too.\<close>

definition update_patient_context ::
  "string \<Rightarrow> memory \<Rightarrow> string \<Rightarrow> metadata \<Rightarrow> memory \<times> error option" where
  "update_patient_context now m session_id md =
     (case patient_contexts m session_id of
        None \<Rightarrow> (m, Some KeyError)
      | Some ctx \<Rightarrow>
          (let (ctx', err) = update_context now md ctx
           in (m\<lparr>patient_contexts := (patient_contexts m)(session_id \<mapsto> ctx')\<rparr>, err)))"

text \<open>
  \<open>add_message\<close>.  The message is appended before the context is updated, so it is
  in the log also when the update raises.
\<close>

definition add_message ::
  "readings \<Rightarrow> memory \<Rightarrow> string \<Rightarrow> string \<Rightarrow> string \<Rightarrow> metadata option
     \<Rightarrow> memory \<times> error option" where
  "add_message clk m session_id r c md =
     (let m1 = create_session (t_created clk) m session_id;
          msg = \<lparr>timestamp = t_message clk, role = r, content = c,
                 metadata = (case md of None \<Rightarrow> empty_metadata | Some d \<Rightarrow> d)\<rparr>
      in case conversations m1 session_id of
           None \<Rightarrow> (m1, Some KeyError)
         | Some msgs \<Rightarrow>
             (let m2 = m1\<lparr>conversations := (conversations m1)(session_id \<mapsto> msgs @ [msg])\<rparr>
              in case md of
                   None \<Rightarrow> (m2, None)
                 | Some d \<Rightarrow>
                     if r = ''assistant'' \<and> md_truthy d
                     then update_patient_context (t_diagnosis clk) m2 session_id d
                     else (m2, None)))"

text \<open>
  \<open>get_conversation\<close>.  \<^verbatim>\<open>if last_n:\<close> is false for \<^verbatim>\<open>None\<close> and for \<open>0\<close>.
\<close>

definition get_conversation :: "memory \<Rightarrow> string \<Rightarrow> int option \<Rightarrow> message list" where
  "get_conversation m session_id last_n =
     (case conversations m session_id of
        None \<Rightarrow> []
      | Some messages \<Rightarrow>
          (case last_n of
             None \<Rightarrow> messages
           | Some n \<Rightarrow> if n \<noteq> 0 then slice_from messages (- n) else messages))"

definition get_patient_context :: "memory \<Rightarrow> string \<Rightarrow> patient_context" where
  "get_patient_context m session_id =
     (case patient_contexts m session_id of None \<Rightarrow> empty_context | Some ctx \<Rightarrow> ctx)"

text \<open>\<^verbatim>\<open>context.get(key)\<close> in a condition: the key is there and its value is not empty.\<close>

fun truthy :: "'a list option \<Rightarrow> bool" where
  "truthy None = False"
| "truthy (Some xs) = (xs \<noteq> [])"

definition get_context_summary :: "memory \<Rightarrow> string \<Rightarrow> string" where
  "get_context_summary m session_id =
     (let context = get_patient_context m session_id in
      if context = empty_context then ''No patient context available.''
      else
        (let summary_parts =
           (if truthy (patient_info context) then
              [''Patient Information: '' @
                 join '', '' (map (\<lambda>(k, v). k @ '': '' @ py_str v) (the (patient_info context)))]
            else []) @
           (if truthy (symptoms_mentioned context) then
              [''Symptoms mentioned: '' @ join '', '' (the (symptoms_mentioned context))]
            else []) @
           (if truthy (diagnoses_received context) then
              [''Previous diagnoses: '' @
                 join '', '' (map d_diagnosis (the (diagnoses_received context)))]
            else []) @
           (if truthy (medications_mentioned context) then
              [''Medications discussed: '' @ join '', '' (the (medications_mentioned context))]
            else [])
         in if summary_parts \<noteq> [] then join [CHR 0x0A] summary_parts
            else ''No context available.''))"

definition clear_session :: "memory \<Rightarrow> string \<Rightarrow> memory" where
  "clear_session m session_id =
     m\<lparr>conversations := (conversations m)(session_id := None),
       patient_contexts := (patient_contexts m)(session_id := None)\<rparr>"

record session_data =
  session_id :: string
  conversation :: "message list"
  patient_context :: patient_context

definition export_session :: "memory \<Rightarrow> string \<Rightarrow> session_data" where
  "export_session m sid =
     \<lparr>session_id = sid,
      conversation = (case conversations m sid of None \<Rightarrow> [] | Some msgs \<Rightarrow> msgs),
      patient_context = (case patient_contexts m sid of None \<Rightarrow> empty_context | Some ctx \<Rightarrow> ctx)\<rparr>"

definition import_session :: "memory \<Rightarrow> session_data \<Rightarrow> memory" where
  "import_session m data =
     m\<lparr>conversations := (conversations m)(session_id data \<mapsto> conversation data),
       patient_contexts := (patient_contexts m)(session_id data \<mapsto> patient_context data)\<rparr>"

text \<open>
  A context with its four tracked keys, as \<open>create_session\<close> makes it.  On such a
  context no block of \<open>_update_patient_context\<close> raises.
\<close>

definition complete_context :: "patient_context \<Rightarrow> bool" where
  "complete_context ctx =
     (patient_info ctx \<noteq> None \<and> symptoms_mentioned ctx \<noteq> None \<and>
      diagnoses_received ctx \<noteq> None \<and> medications_mentioned ctx \<noteq> None)"

text \<open>
  A session in a state that the operations other than \<open>import_session\<close> produce:
  either it has neither a log nor a context yet, or it has a log and a context with
  the tracked keys.  \<open>symptoms_of\<close> and \<open>diagnoses_of\<close> read the two lists of the
  session's context, empty when there is none.
\<close>

definition tracked :: "memory \<Rightarrow> string \<Rightarrow> bool" where
  "tracked m sid =
     (case conversations m sid of
        None \<Rightarrow> patient_contexts m sid = None
      | Some msgs \<Rightarrow>
          (case patient_contexts m sid of None \<Rightarrow> False | Some ctx \<Rightarrow> complete_context ctx))"

definition symptoms_of :: "memory \<Rightarrow> string \<Rightarrow> string list" where
  "symptoms_of m sid =
     (case symptoms_mentioned (get_patient_context m sid) of None \<Rightarrow> [] | Some xs \<Rightarrow> xs)"

definition diagnoses_of :: "memory \<Rightarrow> string \<Rightarrow> diagnosis_record list" where
  "diagnoses_of m sid =
     (case diagnoses_received (get_patient_context m sid) of None \<Rightarrow> [] | Some ds \<Rightarrow> ds)"

text \<open>
  The message that \<open>add_message\<close> builds, and \<open>N\<close> calls of \<open>add_message\<close> on one
  session, one after the other; an exception ends the sequence, as it would in the
  caller.
\<close>

definition new_message :: "readings \<Rightarrow> string \<Rightarrow> string \<Rightarrow> metadata option \<Rightarrow> message" where
  "new_message clk r c md =
     \<lparr>timestamp = t_message clk, role = r, content = c,
      metadata = (case md of None \<Rightarrow> empty_metadata | Some d \<Rightarrow> d)\<rparr>"

fun add_messages ::
  "memory \<Rightarrow> string \<Rightarrow> (readings \<times> string \<times> string \<times> metadata option) list
     \<Rightarrow> memory \<times> error option" where
  "add_messages m sid [] = (m, None)"
| "add_messages m sid ((clk, r, c, md) # calls) =
     (case add_message clk m sid r c md of
        (m', Some e) \<Rightarrow> (m', Some e)
      | (m', None) \<Rightarrow> add_messages m' sid calls)"

text \<open>Concrete inputs for the examples.\<close>

definition example_readings :: readings where
  "example_readings =
     \<lparr>t_created = ''2024-01-01T10:00:00'', t_message = ''2024-01-01T10:00:01'',
      t_diagnosis = ''2024-01-01T10:00:02''\<rparr>"

definition fever_flu :: metadata where
  "fever_flu = empty_metadata\<lparr>md_symptoms := Some [''fever''], md_diagnosis := Some ''flu''\<rparr>"


section \<open>Text index (\<^verbatim>\<open>src/rag/bm25_retriever.py\<close>)\<close>

text \<open>
  \<^verbatim>\<open>text.lower().split()\<close>: letters are folded to lower case, the text is cut at
  runs of white space, and no empty token is produced.
\<close>

definition py_isspace :: "char \<Rightarrow> bool" where
  "py_isspace c =
     (let n = (of_char c :: nat)
      in (9 \<le> n \<and> n \<le> 13) \<or> (28 \<le> n \<and> n \<le> 32) \<or> n = 133 \<or> n = 160)"

definition lower_char :: "char \<Rightarrow> char" where
  "lower_char c =
     (let n = (of_char c :: nat)
      in if (65 \<le> n \<and> n \<le> 90) \<or> (192 \<le> n \<and> n \<le> 222 \<and> n \<noteq> 215)
         then char_of (n + 32) else c)"

definition py_lower :: "string \<Rightarrow> string" where
  "py_lower s = map lower_char s"

fun split_words :: "string \<Rightarrow> string \<Rightarrow> string list" where
  "split_words [] w = (if w = [] then [] else [w])"
| "split_words (c # cs) w =
     (if py_isspace c then (if w = [] then split_words cs [] else w # split_words cs [])
      else split_words cs (w @ [c]))"

definition py_split :: "string \<Rightarrow> string list" where
  "py_split s = split_words s []"

text \<open>
  A document is a dictionary.  A search result of the text index and a fused result
  are both a dictionary with the keys \<^verbatim>\<open>document\<close>, \<^verbatim>\<open>score\<close> and \<^verbatim>\<open>rank\<close>.
  Scores are Python floats; the model computes with exact rationals.
\<close>

type_synonym document = "(string \<times> pyval) list"

record ranked_result =
  document :: document
  score :: rat
  rank :: nat

text \<open>
  The ranking itself is done by the class \<^verbatim>\<open>BM25Okapi\<close> of the package
  \<^verbatim>\<open>rank_bm25\<close>, which is imported and not part of the repository.  Of the
  object only the tokenized corpus it was built from is kept.  Its constructor
  computes the average document length as \<^verbatim>\<open>num_doc / self.corpus_size\<close> and the
  average inverse document frequency as \<^verbatim>\<open>idf_sum / len(self.idf)\<close>, so it
  raises \<open>ZeroDivisionError\<close> for a corpus without documents and for a corpus without
  any token.  Its method \<^verbatim>\<open>get_scores\<close> returns one score for each document of
  the corpus; the scoring formula is a parameter \<open>score_fn\<close> of the model, which gets
  the corpus, the query tokens and the position of the document.
\<close>

record bm25_index =
  corpus :: "string list list"

definition BM25Okapi :: "string list list \<Rightarrow> error + bm25_index" where
  "BM25Okapi tokenized =
     (if length tokenized = 0 then Inl ZeroDivisionError
      else if length (remdups (concat tokenized)) = 0 then Inl ZeroDivisionError
      else Inr \<lparr>corpus = tokenized\<rparr>)"

definition get_scores ::
  "(string list list \<Rightarrow> string list \<Rightarrow> nat \<Rightarrow> rat) \<Rightarrow> bm25_index \<Rightarrow> string list \<Rightarrow> rat list" where
  "get_scores score_fn idx query = map (score_fn (corpus idx) query) [0..<length (corpus idx)]"

text \<open>\<^verbatim>\<open>BM25Retriever\<close> and its \<^verbatim>\<open>__init__\<close>.\<close>

record bm25_retriever =
  bm25 :: "bm25_index option"
  documents :: "document list"

definition init_bm25 :: bm25_retriever where
  "init_bm25 = \<lparr>bm25 = None, documents = []\<rparr>"

text \<open>
  \<^verbatim>\<open>doc["text"].lower().split()\<close> raises \<open>KeyError\<close> for a document without
  text and \<open>AttributeError\<close> for a text that is not a string; the list comprehension
  stops at the first document that raises.
\<close>

definition tokenize_document :: "document \<Rightarrow> error + string list" where
  "tokenize_document doc =
     (case map_of doc ''text'' of
        None \<Rightarrow> Inl KeyError
      | Some (PStr s) \<Rightarrow> Inr (py_split (py_lower s))
      | Some _ \<Rightarrow> Inl AttributeError)"

fun tokenize_all :: "document list \<Rightarrow> error + string list list" where
  "tokenize_all [] = Inr []"
| "tokenize_all (doc # docs) =
     (case tokenize_document doc of
        Inl e \<Rightarrow> Inl e
      | Inr t \<Rightarrow> (case tokenize_all docs of Inl e \<Rightarrow> Inl e | Inr ts \<Rightarrow> Inr (t # ts)))"

text \<open>
  \<^verbatim>\<open>BM25Retriever.index_documents\<close>.  The documents are stored first; when the
  tokenizing or the constructor raises, the retriever keeps the new documents and its
  old index.
\<close>

definition bm25_index_documents ::
  "bm25_retriever \<Rightarrow> document list \<Rightarrow> bm25_retriever \<times> error option" where
  "bm25_index_documents r docs =
     (let r1 = r\<lparr>documents := docs\<rparr>
      in case tokenize_all docs of
           Inl e \<Rightarrow> (r1, Some e)
         | Inr tokenized \<Rightarrow>
             (case BM25Okapi tokenized of
                Inl e \<Rightarrow> (r1, Some e)
              | Inr idx \<Rightarrow> (r1\<lparr>bm25 := Some idx\<rparr>, None)))"

text \<open>
  \<^verbatim>\<open>BM25Retriever.search\<close>.  \<^verbatim>\<open>sorted(..., reverse=True)\<close> is stable: entries
  with the same score keep their order, as a stable sort on the negated score does.
  \<^verbatim>\<open>self.documents[idx]\<close> raises \<open>IndexError\<close> when there are fewer documents than
  scores.
\<close>

fun build_results ::
  "document list \<Rightarrow> rat list \<Rightarrow> nat list \<Rightarrow> ranked_result list \<Rightarrow> error + ranked_result list" where
  "build_results docs scores [] results = Inr results"
| "build_results docs scores (idx # rest) results =
     (if idx < length docs then
        build_results docs scores rest
          (results @ [\<lparr>document = docs ! idx, score = scores ! idx, rank = length results + 1\<rparr>])
      else Inl IndexError)"

definition bm25_search ::
  "(string list list \<Rightarrow> string list \<Rightarrow> nat \<Rightarrow> rat) \<Rightarrow> bm25_retriever \<Rightarrow> string \<Rightarrow> int
     \<Rightarrow> error + ranked_result list" where
  "bm25_search score_fn r query top_k =
     (case bm25 r of
        None \<Rightarrow> Inr []
      | Some idx \<Rightarrow>
          (let tokenized_query = py_split (py_lower query);
               scores = get_scores score_fn idx tokenized_query;
               top_indices =
                 slice_to (sort_key (\<lambda>i. - (scores ! i)) [0..<length scores]) top_k
           in build_results (documents r) scores top_indices []))"


section \<open>Hybrid retriever (\<^verbatim>\<open>src/rag/hybrid_retriever.py\<close>)\<close>

text \<open>
  A result of the vector store: the point's identifier (\<open>add_documents\<close> numbers the
  points with integers), the stored payload, which is the document, and the
  similarity.
\<close>

record scored_point =
  point_id :: int
  payload :: document
  point_score :: rat

text \<open>
  The key of a result in the fusion.  For a result of the text index it is
  \<^verbatim>\<open>result["document"].get("chunk_id", str(result["document"]))\<close>, for a result of
  the vector store \<^verbatim>\<open>result.payload.get("chunk_id", str(result.id))\<close>.
\<close>

definition bm25_doc_id :: "ranked_result \<Rightarrow> pyval" where
  "bm25_doc_id result =
     (case map_of (document result) ''chunk_id'' of
        Some v \<Rightarrow> v
      | None \<Rightarrow> PStr (py_str (PDict (document result))))"

definition vector_doc_id :: "scored_point \<Rightarrow> pyval" where
  "vector_doc_id result =
     (case map_of (payload result) ''chunk_id'' of
        Some v \<Rightarrow> v
      | None \<Rightarrow> PStr (py_str (PInt (point_id result))))"

text \<open>A list or a dictionary cannot be a dictionary key: using one raises \<open>TypeError\<close>.\<close>

fun hashable :: "pyval \<Rightarrow> bool" where
  "hashable (PList xs) = False"
| "hashable (PDict kvs) = False"
| "hashable v = True"

text \<open>
  One scoring loop,
  \<^verbatim>\<open>for rank, result in enumerate(results, 1): scores[doc_id] = scores.get(doc_id, 0) + 1 / (k + rank)\<close>,
  from the rank \<open>rnk\<close> on.  The division raises when \<open>k + rank\<close> is zero.
\<close>

fun add_scores ::
  "('r \<Rightarrow> pyval) \<Rightarrow> int \<Rightarrow> nat \<Rightarrow> 'r list \<Rightarrow> (pyval \<times> rat) list \<Rightarrow> error + (pyval \<times> rat) list" where
  "add_scores key k rnk [] scores = Inr scores"
| "add_scores key k rnk (result # rest) scores =
     (let doc_id = key result in
      if \<not> hashable doc_id then Inl TypeError
      else if k + int rnk = 0 then Inl ZeroDivisionError
      else add_scores key k (Suc rnk) rest
             (dict_set scores doc_id
                ((case map_of scores doc_id of None \<Rightarrow> 0 | Some s \<Rightarrow> s) + 1 / of_int (k + int rnk))))"

text \<open>The score table after both loops of \<open>reciprocal_rank_fusion\<close>.\<close>

definition fused_scores ::
  "ranked_result list \<Rightarrow> scored_point list \<Rightarrow> int \<Rightarrow> error + (pyval \<times> rat) list" where
  "fused_scores bm25_results vector_results k =
     (case add_scores bm25_doc_id k 1 bm25_results [] of
        Inl e \<Rightarrow> Inl e
      | Inr scores \<Rightarrow> add_scores vector_doc_id k 1 vector_results scores)"

text \<open>The last loop of \<open>reciprocal_rank_fusion\<close>, over the first ten sorted entries.\<close>

fun collect_results ::
  "(pyval \<times> rat) list \<Rightarrow> (pyval \<times> document) list \<Rightarrow> ranked_result list \<Rightarrow> ranked_result list" where
  "collect_results [] all_docs results = results"
| "collect_results ((doc_id, s) # rest) all_docs results =
     collect_results rest all_docs
       (case map_of all_docs doc_id of
          None \<Rightarrow> results
        | Some d \<Rightarrow> results @ [\<lparr>document = d, score = s, rank = length results + 1\<rparr>])"

definition reciprocal_rank_fusion ::
  "ranked_result list \<Rightarrow> scored_point list \<Rightarrow> int \<Rightarrow> error + ranked_result list" where
  "reciprocal_rank_fusion bm25_results vector_results k =
     (case fused_scores bm25_results vector_results k of
        Inl e \<Rightarrow> Inl e
      | Inr scores \<Rightarrow>
          (let sorted_docs = sort_key (\<lambda>(doc_id, s). - s) scores;
               all_docs =
                 dict_update
                   (dict_update [] (map (\<lambda>r. (bm25_doc_id r, document r)) bm25_results))
                   (dict_update [] (map (\<lambda>r. (vector_doc_id r, payload r)) vector_results))
           in Inr (collect_results (slice_to sorted_docs 10) all_docs [])))"

text \<open>
  \<^verbatim>\<open>HybridRetriever.search\<close>.  The embedding of the query and the search in the vector
  store are calls to outside services; they are parameters of the model and can fail.
  An error of any step is the error of the search.
\<close>

definition hybrid_search ::
  "(string list list \<Rightarrow> string list \<Rightarrow> nat \<Rightarrow> rat) \<Rightarrow> (string \<Rightarrow> error + 'v)
     \<Rightarrow> ('v \<Rightarrow> int \<Rightarrow> error + scored_point list) \<Rightarrow> bm25_retriever \<Rightarrow> string \<Rightarrow> int
     \<Rightarrow> error + ranked_result list" where
  "hybrid_search score_fn embed_query vector_search r query top_k =
     (case bm25_search score_fn r query 10 of
        Inl e \<Rightarrow> Inl e
      | Inr bm25_results \<Rightarrow>
          (case embed_query query of
             Inl e \<Rightarrow> Inl e
           | Inr query_vector \<Rightarrow>
               (case vector_search query_vector 10 of
                  Inl e \<Rightarrow> Inl e
                | Inr vector_results \<Rightarrow>
                    (case reciprocal_rank_fusion bm25_results vector_results 60 of
                       Inl e \<Rightarrow> Inl e
                     | Inr hybrid_results \<Rightarrow> Inr (slice_to hybrid_results top_k)))))"

text \<open>
  Concrete inputs for the examples: documents with a chunk identifier, a vector store
  of \<open>stored\<close> points, a scoring function that counts the tokens of a document that
  occur in the query, and a text index over two documents.
\<close>

definition example_doc :: "string \<Rightarrow> document" where
  "example_doc name = [(''text'', PStr name), (''chunk_id'', PStr name)]"

definition example_point :: "nat \<Rightarrow> scored_point" where
  "example_point i =
     \<lparr>point_id = int i, payload = [(''text'', PStr ''note''), (''chunk_id'', PInt (int i))],
      point_score = 1 / of_nat (i + 1)\<rparr>"

definition point_without_id :: scored_point where
  "point_without_id = \<lparr>point_id = 0, payload = [(''text'', PStr ''x'')], point_score = 1\<rparr>"

definition example_embed :: "string \<Rightarrow> error + nat" where
  "example_embed q = Inr (length q)"

definition example_vector_search :: "nat \<Rightarrow> nat \<Rightarrow> int \<Rightarrow> error + scored_point list" where
  "example_vector_search stored v limit = Inr (take (nat limit) (map example_point [0..<stored]))"

definition example_score_fn :: "string list list \<Rightarrow> string list \<Rightarrow> nat \<Rightarrow> rat" where
  "example_score_fn docs query i = of_nat (length (filter (\<lambda>w. w \<in> set query) (docs ! i)))"

definition example_retriever :: bm25_retriever where
  "example_retriever =
     fst (bm25_index_documents init_bm25
            [example_doc ''rash itch'', example_doc ''fever cough fever''])"

definition example_top_ten :: "ranked_result list" where
  "example_top_ten =
     [\<lparr>document = example_doc ''fever cough fever'', score = 1 / 61, rank = 1\<rparr>,
      \<lparr>document = payload (example_point 0), score = 1 / 61, rank = 2\<rparr>,
      \<lparr>document = example_doc ''rash itch'', score = 1 / 62, rank = 3\<rparr>,
      \<lparr>document = payload (example_point 1), score = 1 / 62, rank = 4\<rparr>,
      \<lparr>document = payload (example_point 2), score = 1 / 63, rank = 5\<rparr>,
      \<lparr>document = payload (example_point 3), score = 1 / 64, rank = 6\<rparr>,
      \<lparr>document = payload (example_point 4), score = 1 / 65, rank = 7\<rparr>,
      \<lparr>document = payload (example_point 5), score = 1 / 66, rank = 8\<rparr>,
      \<lparr>document = payload (example_point 6), score = 1 / 67, rank = 9\<rparr>,
      \<lparr>document = payload (example_point 7), score = 1 / 68, rank = 10\<rparr>]"


section \<open>Properties of the conversation memory\<close>

subsection \<open>Auxiliary facts\<close>

lemma track_patient_info_complete:
  "complete_context ctx \<Longrightarrow> \<exists>ctx'. track_patient_info md ctx = Inr ctx' \<and> complete_context ctx'"
  by (auto simp: track_patient_info_def complete_context_def split: option.splits)

lemma track_symptoms_complete:
  "complete_context ctx \<Longrightarrow> \<exists>ctx'. track_symptoms md ctx = Inr ctx' \<and> complete_context ctx'"
  by (auto simp: track_symptoms_def complete_context_def split: option.splits)

lemma track_diagnosis_complete:
  "complete_context ctx \<Longrightarrow> \<exists>ctx'. track_diagnosis now md ctx = Inr ctx' \<and> complete_context ctx'"
  by (auto simp: track_diagnosis_def complete_context_def split: option.splits)

lemma track_medications_complete:
  "complete_context ctx \<Longrightarrow> \<exists>ctx'. track_medications md ctx = Inr ctx' \<and> complete_context ctx'"
  by (auto simp: track_medications_def complete_context_def split: option.splits)

lemma update_context_complete:
  assumes "complete_context ctx"
  shows "\<exists>ctx'. update_context now md ctx = (ctx', None) \<and> complete_context ctx'"
proof -
  obtain c1 where 1: "track_patient_info md ctx = Inr c1" "complete_context c1"
    using track_patient_info_complete [OF assms] by blast
  obtain c2 where 2: "track_symptoms md c1 = Inr c2" "complete_context c2"
    using track_symptoms_complete [OF 1(2)] by blast
  obtain c3 where 3: "track_diagnosis now md c2 = Inr c3" "complete_context c3"
    using track_diagnosis_complete [OF 2(2)] by blast
  obtain c4 where 4: "track_medications md c3 = Inr c4" "complete_context c4"
    using track_medications_complete [OF 3(2)] by blast
  show ?thesis using 1 2 3 4 by (simp add: update_context_def)
qed

lemma create_session_existing:
  "conversations m sid = Some old \<Longrightarrow> create_session now m sid = m"
  by (simp add: create_session_def)

lemma add_message_existing:
  assumes "conversations m sid = Some old" and "patient_contexts m sid = Some ctx"
    and "complete_context ctx"
  shows "\<exists>m' ctx'. add_message clk m sid r c md = (m', None) \<and>
           conversations m' sid = Some (old @ [new_message clk r c md]) \<and>
           patient_contexts m' sid = Some ctx' \<and> complete_context ctx'"
proof (cases md)
  case None
  then show ?thesis using assms
    by (simp add: add_message_def create_session_existing new_message_def)
next
  case (Some d)
  obtain c' where u: "update_context (t_diagnosis clk) d ctx = (c', None)" "complete_context c'"
    using update_context_complete [OF assms(3)] by blast
  show ?thesis
  proof (cases "r = ''assistant'' \<and> md_truthy d")
    case True
    then show ?thesis using assms Some u
      by (simp add: add_message_def create_session_existing new_message_def
          update_patient_context_def)
  next
    case False
    then show ?thesis using assms Some
      by (auto simp: add_message_def create_session_existing new_message_def Let_def)
  qed
qed


lemma add_message_create:
  "add_message clk (create_session (t_created clk) m sid) sid r c md = add_message clk m sid r c md"
  by (simp add: add_message_def create_session_def)

lemma update_context_on_complete:
  assumes "patient_info ctx = Some info" and "symptoms_mentioned ctx = Some seen"
    and "diagnoses_received ctx = Some ds" and "medications_mentioned ctx = Some meds"
  shows "update_context now md ctx =
    (ctx\<lparr>patient_info := Some (case md_patient_info md of None \<Rightarrow> info | Some new \<Rightarrow> dict_update info new),
         symptoms_mentioned := Some (case md_symptoms md of None \<Rightarrow> seen | Some xs \<Rightarrow> append_new xs seen),
         diagnoses_received := Some (case md_diagnosis md of None \<Rightarrow> ds
            | Some d \<Rightarrow> ds @ [\<lparr>d_diagnosis = d,
                 d_confidence = (case md_confidence md of None \<Rightarrow> 0 | Some c \<Rightarrow> c),
                 d_timestamp = now\<rparr>]),
         medications_mentioned := Some (case md_medications md of None \<Rightarrow> meds | Some xs \<Rightarrow> append_new xs meds)\<rparr>,
     None)"
proof -
  define c1 where "c1 = ctx\<lparr>patient_info := Some (case md_patient_info md of None \<Rightarrow> info | Some new \<Rightarrow> dict_update info new)\<rparr>"
  have 1: "track_patient_info md ctx = Inr c1"
    using assms(1) by (simp add: track_patient_info_def c1_def split: option.split)
  define c2 where "c2 = c1\<lparr>symptoms_mentioned := Some (case md_symptoms md of None \<Rightarrow> seen | Some xs \<Rightarrow> append_new xs seen)\<rparr>"
  have 2: "track_symptoms md c1 = Inr c2"
    using assms(2) by (simp add: track_symptoms_def c1_def c2_def split: option.split)
  define c3 where "c3 = c2\<lparr>diagnoses_received := Some (case md_diagnosis md of None \<Rightarrow> ds
            | Some d \<Rightarrow> ds @ [\<lparr>d_diagnosis = d,
                 d_confidence = (case md_confidence md of None \<Rightarrow> 0 | Some c \<Rightarrow> c),
                 d_timestamp = now\<rparr>])\<rparr>"
  have 3: "track_diagnosis now md c2 = Inr c3"
    using assms(3) by (simp add: track_diagnosis_def c1_def c2_def c3_def split: option.split)
  define c4 where "c4 = c3\<lparr>medications_mentioned := Some (case md_medications md of None \<Rightarrow> meds | Some xs \<Rightarrow> append_new xs meds)\<rparr>"
  have 4: "track_medications md c3 = Inr c4"
    using assms(4) by (simp add: track_medications_def c1_def c2_def c3_def c4_def split: option.split)
  have "update_context now md ctx = (c4, None)"
    using 1 2 3 4 by (simp add: update_context_def)
  then show ?thesis by (simp add: c1_def c2_def c3_def c4_def)
qed

lemma set_append_new: "set (append_new xs acc) = set acc \<union> set xs"
  by (induction xs arbitrary: acc) auto

lemma count_list_append_new:
  "count_list (append_new xs acc) x =
     (if x \<in> set acc then count_list acc x else if x \<in> set xs then 1 else 0)"
proof (induction xs arbitrary: acc)
  case Nil
  then show ?case by (simp add: count_list_0_iff)
next
  case (Cons y ys)
  show ?case
  proof (cases "y \<in> set acc")
    case True
    then show ?thesis using Cons.IH [of acc] by auto
  next
    case False
    then show ?thesis using Cons.IH [of "acc @ [y]"] by (auto simp: count_list_0_iff)
  qed
qed

lemma tracked_create_session:
  assumes "tracked m sid"
  shows "\<exists>old ctx. conversations (create_session now m sid) sid = Some old \<and>
           patient_contexts (create_session now m sid) sid = Some ctx \<and> complete_context ctx \<and>
           old = get_conversation m sid None \<and>
           symptoms_mentioned ctx = Some (symptoms_of m sid) \<and>
           diagnoses_received ctx = Some (diagnoses_of m sid)"
proof (cases "conversations m sid")
  case None
  with assms have "patient_contexts m sid = None" by (simp add: tracked_def)
  with None show ?thesis
    by (simp add: create_session_def complete_context_def get_conversation_def symptoms_of_def
        diagnoses_of_def get_patient_context_def empty_context_def)
next
  case (Some old)
  with assms obtain ctx where c: "patient_contexts m sid = Some ctx" "complete_context ctx"
    by (auto simp: tracked_def split: option.splits)
  then obtain xs ds where "symptoms_mentioned ctx = Some xs" "diagnoses_received ctx = Some ds"
    by (auto simp: complete_context_def)
  with Some c show ?thesis
    by (simp add: create_session_def get_conversation_def symptoms_of_def
        diagnoses_of_def get_patient_context_def)
qed


lemma tracked_add_message:
  assumes "tracked m sid"
  shows "\<exists>m'. add_message clk m sid r c md = (m', None) \<and> tracked m' sid \<and>
           get_conversation m' sid None = get_conversation m sid None @ [new_message clk r c md]"
proof -
  from tracked_create_session [OF assms, of "t_created clk"]
  obtain old ctx where a: "conversations (create_session (t_created clk) m sid) sid = Some old"
    and b: "patient_contexts (create_session (t_created clk) m sid) sid = Some ctx"
    and c: "complete_context ctx" and o: "old = get_conversation m sid None" by blast
  from add_message_existing [OF a b c, of clk r c md]
  obtain m' ctx' where "add_message clk m sid r c md = (m', None)"
    "conversations m' sid = Some (old @ [new_message clk r c md])"
    "patient_contexts m' sid = Some ctx'" "complete_context ctx'"
    by (auto simp: add_message_create)
  then show ?thesis using o by (simp add: tracked_def get_conversation_def)
qed

lemma tracked_add_messages:
  assumes "tracked m sid"
  shows "\<exists>m'. add_messages m sid calls = (m', None) \<and>
           get_conversation m' sid None =
             get_conversation m sid None @ map (\<lambda>(clk, r, c, md). new_message clk r c md) calls"
  using assms
proof (induction calls arbitrary: m)
  case Nil
  then show ?case by simp
next
  case (Cons call calls)
  obtain clk r c md where call: "call = (clk, r, c, md)" by (cases call) auto
  from tracked_add_message [OF Cons.prems, of clk r c md]
  obtain m1 where s: "add_message clk m sid r c md = (m1, None)" and t: "tracked m1 sid"
    and l: "get_conversation m1 sid None = get_conversation m sid None @ [new_message clk r c md]"
    by blast
  from Cons.IH [OF t] show ?case using s l call by simp
qed

lemma get_conversation_last_n:
  assumes "0 < n"
  shows "get_conversation m sid (Some n) =
           drop (length (get_conversation m sid None) - nat n) (get_conversation m sid None)"
  using assms
  by (simp add: get_conversation_def slice_from_def nat_diff_distrib' split: option.split)

lemma add_message_assistant_existing:
  assumes "conversations m sid = Some old" and "patient_contexts m sid = Some ctx"
    and "md_truthy d"
  shows "add_message clk m sid ''assistant'' c (Some d) =
    (m\<lparr>conversations := (conversations m)(sid \<mapsto> old @ [new_message clk ''assistant'' c (Some d)]),
       patient_contexts := (patient_contexts m)(sid \<mapsto> fst (update_context (t_diagnosis clk) d ctx))\<rparr>,
     snd (update_context (t_diagnosis clk) d ctx))"
  using assms
  by (simp add: add_message_def create_session_existing new_message_def
      update_patient_context_def split_beta)

lemma md_truthy_symptoms: "md_symptoms d = Some xs \<Longrightarrow> md_truthy d"
  by (auto simp: md_truthy_def empty_metadata_def)

lemma md_truthy_diagnosis: "md_diagnosis d = Some x \<Longrightarrow> md_truthy d"
  by (auto simp: md_truthy_def empty_metadata_def)

lemma update_context_effect:
  assumes "complete_context ctx" and "symptoms_mentioned ctx = Some seen"
    and "diagnoses_received ctx = Some ds"
  shows "\<exists>ctx'. update_context now md ctx = (ctx', None) \<and> complete_context ctx' \<and>
           symptoms_mentioned ctx' =
             Some (case md_symptoms md of None \<Rightarrow> seen | Some xs \<Rightarrow> append_new xs seen) \<and>
           diagnoses_received ctx' =
             Some (case md_diagnosis md of None \<Rightarrow> ds
                   | Some d \<Rightarrow> ds @ [\<lparr>d_diagnosis = d,
                       d_confidence = (case md_confidence md of None \<Rightarrow> 0 | Some c \<Rightarrow> c),
                       d_timestamp = now\<rparr>])"
proof -
  from assms(1) obtain info meds where "patient_info ctx = Some info"
    "medications_mentioned ctx = Some meds"
    by (auto simp: complete_context_def)
  from update_context_on_complete [OF this(1) assms(2) assms(3) this(2), of now md]
  show ?thesis by (simp add: complete_context_def)
qed

lemma assistant_message_effect:
  assumes "tracked m sid" and "md_truthy d"
    and "add_message clk m sid ''assistant'' c (Some d) = (m', e)"
  shows "e = None \<and> tracked m' sid \<and>
         symptoms_of m' sid =
           (case md_symptoms d of None \<Rightarrow> symptoms_of m sid
            | Some xs \<Rightarrow> append_new xs (symptoms_of m sid)) \<and>
         diagnoses_of m' sid =
           (case md_diagnosis d of None \<Rightarrow> diagnoses_of m sid
            | Some x \<Rightarrow> diagnoses_of m sid @ [\<lparr>d_diagnosis = x,
                d_confidence = (case md_confidence d of None \<Rightarrow> 0 | Some c \<Rightarrow> c),
                d_timestamp = t_diagnosis clk\<rparr>])"
proof -
  define m0 where "m0 = create_session (t_created clk) m sid"
  from tracked_create_session [OF assms(1), of "t_created clk"]
  obtain old ctx where a: "conversations m0 sid = Some old"
    and b: "patient_contexts m0 sid = Some ctx"
    and c: "complete_context ctx"
    and s: "symptoms_mentioned ctx = Some (symptoms_of m sid)"
    and g: "diagnoses_received ctx = Some (diagnoses_of m sid)"
    unfolding m0_def by blast
  from update_context_effect [OF c s g, of "t_diagnosis clk" d]
  obtain ctx' where u: "update_context (t_diagnosis clk) d ctx = (ctx', None)"
    and c': "complete_context ctx'"
    and s': "symptoms_mentioned ctx' =
             Some (case md_symptoms d of None \<Rightarrow> symptoms_of m sid
                   | Some xs \<Rightarrow> append_new xs (symptoms_of m sid))"
    and g': "diagnoses_received ctx' =
             Some (case md_diagnosis d of None \<Rightarrow> diagnoses_of m sid
                   | Some x \<Rightarrow> diagnoses_of m sid @ [\<lparr>d_diagnosis = x,
                       d_confidence = (case md_confidence d of None \<Rightarrow> 0 | Some c \<Rightarrow> c),
                       d_timestamp = t_diagnosis clk\<rparr>])"
    by blast
  have "add_message clk m0 sid ''assistant'' c (Some d) = (m', e)"
    using assms(3) by (simp add: m0_def add_message_create)
  with add_message_assistant_existing [OF a b assms(2), of clk c] u
  have e: "e = None"
    and m': "m' = m0\<lparr>conversations := (conversations m0)(sid \<mapsto>
                    old @ [new_message clk ''assistant'' c (Some d)]),
                  patient_contexts := (patient_contexts m0)(sid \<mapsto> ctx')\<rparr>"
    by simp_all
  have "tracked m' sid" using c' by (simp add: m' tracked_def)
  moreover have "symptoms_of m' sid =
           (case md_symptoms d of None \<Rightarrow> symptoms_of m sid
            | Some xs \<Rightarrow> append_new xs (symptoms_of m sid))"
    by (simp add: m' symptoms_of_def [of "m0\<lparr>conversations := _, patient_contexts := _\<rparr>"]
        get_patient_context_def s')
  moreover have "diagnoses_of m' sid =
           (case md_diagnosis d of None \<Rightarrow> diagnoses_of m sid
            | Some x \<Rightarrow> diagnoses_of m sid @ [\<lparr>d_diagnosis = x,
                d_confidence = (case md_confidence d of None \<Rightarrow> 0 | Some c \<Rightarrow> c),
                d_timestamp = t_diagnosis clk\<rparr>])"
    by (simp add: m' diagnoses_of_def [of "m0\<lparr>conversations := _, patient_contexts := _\<rparr>"]
        get_patient_context_def g')
  ultimately show ?thesis using e by simp
qed

subsection \<open>The claims\<close>

text \<open>
  C5.  Two assistant messages are appended to a session that is new or has a
  complete context, in which the symptom (``fever'') is listed at most once.  When
  the metadata of both list the symptom, it is in the symptom list exactly once
  afterwards.  When both carry a diagnosis, the diagnosis list has grown by exactly
  these two entries, in the order of the calls, also when the two diagnoses are the
  same text.  Neither call raises.
\<close>

theorem context_dedup:
  assumes ok: "tracked m sid"
    and once: "count_list (symptoms_of m sid) symptom \<le> 1"
    and first: "add_message c1 m sid ''assistant'' x1 (Some md1) = (m1, e1)"
    and second: "add_message c2 m1 sid ''assistant'' x2 (Some md2) = (m2, e2)"
  shows "(\<forall>s1 s2. md_symptoms md1 = Some s1 \<and> md_symptoms md2 = Some s2 \<and>
            symptom \<in> set s1 \<and> symptom \<in> set s2 \<longrightarrow>
            e1 = None \<and> e2 = None \<and> count_list (symptoms_of m2 sid) symptom = 1) \<and>
         (\<forall>d1 d2. md_diagnosis md1 = Some d1 \<and> md_diagnosis md2 = Some d2 \<longrightarrow>
            e1 = None \<and> e2 = None \<and>
            map d_diagnosis (diagnoses_of m2 sid) =
              map d_diagnosis (diagnoses_of m sid) @ [d1, d2])"
proof (intro conjI allI impI)
  fix s1 s2
  assume h: "md_symptoms md1 = Some s1 \<and> md_symptoms md2 = Some s2 \<and>
            symptom \<in> set s1 \<and> symptom \<in> set s2"
  then have t1: "md_truthy md1" and t2: "md_truthy md2"
    using md_truthy_symptoms by blast+
  from assistant_message_effect [OF ok t1 first] h
  have a: "e1 = None" "tracked m1 sid" "symptoms_of m1 sid = append_new s1 (symptoms_of m sid)"
    by simp_all
  from assistant_message_effect [OF a(2) t2 second] h a(3)
  have b: "e2 = None" "symptoms_of m2 sid = append_new s2 (append_new s1 (symptoms_of m sid))"
    by simp_all
  have "count_list (append_new s1 (symptoms_of m sid)) symptom = 1"
    using h once by (auto simp: count_list_append_new count_list_0_iff dest: le_neq_implies_less)
  moreover have "symptom \<in> set (append_new s1 (symptoms_of m sid))"
    using h by (simp add: set_append_new)
  ultimately have "count_list (symptoms_of m2 sid) symptom = 1"
    by (simp add: b(2) count_list_append_new)
  with a(1) b(1) show "e1 = None" "e2 = None" "count_list (symptoms_of m2 sid) symptom = 1"
    by simp_all
next
  fix d1 d2
  assume h: "md_diagnosis md1 = Some d1 \<and> md_diagnosis md2 = Some d2"
  then have t1: "md_truthy md1" and t2: "md_truthy md2"
    using md_truthy_diagnosis by blast+
  from assistant_message_effect [OF ok t1 first] h
  have a: "e1 = None" "tracked m1 sid"
    "map d_diagnosis (diagnoses_of m1 sid) = map d_diagnosis (diagnoses_of m sid) @ [d1]"
    by simp_all
  from assistant_message_effect [OF a(2) t2 second] h a(3)
  have b: "e2 = None"
    "map d_diagnosis (diagnoses_of m2 sid) = map d_diagnosis (diagnoses_of m sid) @ [d1, d2]"
    by simp_all
  with a(1) show "e1 = None" "e2 = None"
    "map d_diagnosis (diagnoses_of m2 sid) = map d_diagnosis (diagnoses_of m sid) @ [d1, d2]"
    by simp_all
qed

theorem context_dedup_witness:
  "tracked (fst (add_message example_readings init_memory ''s1'' ''user'' ''hello'' None)) ''s1'' \<and>
   count_list (symptoms_of
     (fst (add_message example_readings init_memory ''s1'' ''user'' ''hello'' None)) ''s1'')
     ''fever'' \<le> 1 \<and>
   md_symptoms fever_flu = Some [''fever''] \<and> ''fever'' \<in> set [''fever''] \<and>
   md_diagnosis fever_flu = Some ''flu'' \<and>
   count_list (symptoms_of
     (fst (add_message example_readings
        (fst (add_message example_readings
           (fst (add_message example_readings init_memory ''s1'' ''user'' ''hello'' None))
           ''s1'' ''assistant'' ''a'' (Some fever_flu)))
        ''s1'' ''assistant'' ''b'' (Some fever_flu))) ''s1'') ''fever'' = 1 \<and>
   map d_diagnosis (diagnoses_of
     (fst (add_message example_readings
        (fst (add_message example_readings
           (fst (add_message example_readings init_memory ''s1'' ''user'' ''hello'' None))
           ''s1'' ''assistant'' ''a'' (Some fever_flu)))
        ''s1'' ''assistant'' ''b'' (Some fever_flu))) ''s1'') = [''flu'', ''flu'']"
proof -
  define m0 where "m0 = fst (add_message example_readings init_memory ''s1'' ''user'' ''hello'' None)"
  define m1 where "m1 = fst (add_message example_readings m0 ''s1'' ''assistant'' ''a'' (Some fever_flu))"
  define m2 where "m2 = fst (add_message example_readings m1 ''s1'' ''assistant'' ''b'' (Some fever_flu))"
  have t: "tracked m0 ''s1''" and s0: "symptoms_of m0 ''s1'' = []"
    and d0: "diagnoses_of m0 ''s1'' = []"
    by (simp_all add: m0_def tracked_def init_memory_def add_message_def create_session_def
        complete_context_def symptoms_of_def diagnoses_of_def get_patient_context_def)
  have a: "add_message example_readings m0 ''s1'' ''assistant'' ''a'' (Some fever_flu) =
             (m1, snd (add_message example_readings m0 ''s1'' ''assistant'' ''a'' (Some fever_flu)))"
    by (simp add: m1_def)
  have b: "add_message example_readings m1 ''s1'' ''assistant'' ''b'' (Some fever_flu) =
             (m2, snd (add_message example_readings m1 ''s1'' ''assistant'' ''b'' (Some fever_flu)))"
    by (simp add: m2_def)
  have s: "md_symptoms fever_flu = Some [''fever'']" and d: "md_diagnosis fever_flu = Some ''flu''"
    by (simp_all add: fever_flu_def empty_metadata_def)
  have once: "count_list (symptoms_of m0 ''s1'') ''fever'' \<le> 1" by (simp add: s0)
  from context_dedup [OF t once a b] s d d0
  have "count_list (symptoms_of m2 ''s1'') ''fever'' = 1 \<and>
        map d_diagnosis (diagnoses_of m2 ''s1'') = [''flu'', ''flu'']"
    by simp
  then show ?thesis using t once s d unfolding m2_def m1_def m0_def by simp
qed

text \<open>
  C6.  \<open>get_context_summary\<close> gives one fixed string when the session has no context
  (the empty dictionary), another fixed string when there is a context but patient
  info, symptoms, diagnoses and medications are all missing or empty, and the two
  strings differ.
\<close>

theorem context_summary_sentinels:
  "(get_patient_context m sid = empty_context \<longrightarrow>
      get_context_summary m sid = ''No patient context available.'') \<and>
   (get_patient_context m sid \<noteq> empty_context \<and>
    \<not> truthy (patient_info (get_patient_context m sid)) \<and>
    \<not> truthy (symptoms_mentioned (get_patient_context m sid)) \<and>
    \<not> truthy (diagnoses_received (get_patient_context m sid)) \<and>
    \<not> truthy (medications_mentioned (get_patient_context m sid)) \<longrightarrow>
      get_context_summary m sid = ''No context available.'') \<and>
   ''No patient context available.'' \<noteq> ''No context available.''"
  by (simp add: get_context_summary_def Let_def)

theorem context_summary_sentinels_witness:
  "get_patient_context init_memory ''s1'' = empty_context \<and>
   get_context_summary init_memory ''s1'' = ''No patient context available.'' \<and>
   get_patient_context (fst (add_message example_readings init_memory ''s1'' ''user'' ''hello'' None)) ''s1''
     \<noteq> empty_context \<and>
   get_context_summary (fst (add_message example_readings init_memory ''s1'' ''user'' ''hello'' None)) ''s1''
     = ''No context available.''"
  using context_summary_sentinels [of init_memory "''s1''"]
    context_summary_sentinels
      [of "fst (add_message example_readings init_memory ''s1'' ''user'' ''hello'' None)" "''s1''"]
  by (simp add: get_patient_context_def init_memory_def add_message_def create_session_def
      empty_context_def)

text \<open>
  C7.  Importing the export of a session into a fresh memory gives the same message
  log (for every \<open>last_n\<close>), the same patient context and the same export.
\<close>

theorem export_import_round_trip:
  "get_conversation (import_session init_memory (export_session m sid)) sid last_n =
     get_conversation m sid last_n \<and>
   get_patient_context (import_session init_memory (export_session m sid)) sid =
     get_patient_context m sid \<and>
   export_session (import_session init_memory (export_session m sid)) sid = export_session m sid"
  by (simp add: get_conversation_def get_patient_context_def import_session_def
      export_session_def init_memory_def slice_from_def split: option.splits)

text \<open>
  C8, as the specification states it, fails for \<open>last_n = 0\<close>: the log of one
  message is returned whole, which is not its last zero entries.
\<close>

theorem get_conversation_last_n_counterexample:
  "get_conversation (fst (add_message example_readings init_memory ''s1'' ''user'' ''hello'' None))
     ''s1'' (Some 0) \<noteq>
   drop (length (get_conversation
           (fst (add_message example_readings init_memory ''s1'' ''user'' ''hello'' None)) ''s1'' None) - nat 0)
     (get_conversation (fst (add_message example_readings init_memory ''s1'' ''user'' ''hello'' None))
        ''s1'' None)"
  by (simp add: init_memory_def add_message_def create_session_def get_conversation_def)

text \<open>
  C8, amended.  After \<open>N\<close> calls of \<open>add_message\<close> on a session that is new or has a
  complete context, no call has raised and \<open>get_conversation\<close> returns the log from
  before (empty for a new session) followed by exactly the \<open>N\<close> messages in call
  order; with a positive \<open>last_n\<close> it returns the last \<open>last_n\<close> entries of that log
  (all of them when there are fewer), in the same order.
\<close>

theorem conversation_append_order:
  assumes "tracked m sid"
  shows "\<exists>m'. add_messages m sid calls = (m', None) \<and>
           get_conversation m' sid None =
             get_conversation m sid None @ map (\<lambda>(clk, r, c, md). new_message clk r c md) calls \<and>
           (\<forall>n. 0 < n \<longrightarrow>
              get_conversation m' sid (Some n) =
                drop (length (get_conversation m sid None) + length calls - nat n)
                  (get_conversation m sid None @
                   map (\<lambda>(clk, r, c, md). new_message clk r c md) calls))"
proof -
  from tracked_add_messages [OF assms, of calls]
  obtain m' where a: "add_messages m sid calls = (m', None)"
    and b: "get_conversation m' sid None =
             get_conversation m sid None @ map (\<lambda>(clk, r, c, md). new_message clk r c md) calls"
    by blast
  have "get_conversation m' sid (Some n) =
          drop (length (get_conversation m sid None) + length calls - nat n)
            (get_conversation m sid None @ map (\<lambda>(clk, r, c, md). new_message clk r c md) calls)"
    if "0 < n" for n
    using get_conversation_last_n [OF that, of m' sid] b by simp
  with a b show ?thesis by blast
qed

theorem conversation_append_order_witness:
  "tracked init_memory ''s1'' \<and> get_conversation init_memory ''s1'' None = [] \<and>
   (\<exists>m'. add_messages init_memory ''s1''
            [(example_readings, ''user'', ''a'', None),
             (example_readings, ''assistant'', ''b'', Some fever_flu),
             (example_readings, ''user'', ''c'', None)] = (m', None) \<and>
          get_conversation m' ''s1'' None =
            [new_message example_readings ''user'' ''a'' None,
             new_message example_readings ''assistant'' ''b'' (Some fever_flu),
             new_message example_readings ''user'' ''c'' None] \<and>
          (0::int) < 2 \<and>
          get_conversation m' ''s1'' (Some 2) =
            [new_message example_readings ''assistant'' ''b'' (Some fever_flu),
             new_message example_readings ''user'' ''c'' None])"
proof -
  have t: "tracked init_memory ''s1''" and e: "get_conversation init_memory ''s1'' None = []"
    by (simp_all add: tracked_def init_memory_def get_conversation_def)
  from conversation_append_order [OF t,
          of "[(example_readings, ''user'', ''a'', None),
             (example_readings, ''assistant'', ''b'', Some fever_flu),
             (example_readings, ''user'', ''c'', None)]"]
  show ?thesis using t e by auto
qed

text \<open>
  C10.  \<open>get_conversation\<close> with \<open>last_n = 0\<close> on a session that holds messages
  returns all of them, not the empty list: zero switches the truncation off.
\<close>

theorem get_conversation_zero_returns_all:
  assumes "conversations m sid = Some msgs" and "0 < length msgs"
  shows "get_conversation m sid (Some 0) = msgs \<and> get_conversation m sid (Some 0) \<noteq> []"
  using assms by (auto simp: get_conversation_def)

theorem get_conversation_zero_returns_all_witness:
  "conversations (fst (add_message example_readings init_memory ''s1'' ''user'' ''hello'' None)) ''s1''
     = Some [new_message example_readings ''user'' ''hello'' None] \<and>
   0 < length [new_message example_readings ''user'' ''hello'' None] \<and>
   get_conversation (fst (add_message example_readings init_memory ''s1'' ''user'' ''hello'' None))
     ''s1'' (Some 0) = [new_message example_readings ''user'' ''hello'' None]"
  using get_conversation_zero_returns_all
    [of "fst (add_message example_readings init_memory ''s1'' ''user'' ''hello'' None)" "''s1''"
        "[new_message example_readings ''user'' ''hello'' None]"]
  by (simp add: init_memory_def add_message_def create_session_def new_message_def)

section \<open>Properties of the retrieval\<close>

subsection \<open>Auxiliary facts\<close>

lemma keys_dict_set: "fst ` set (dict_set d k v) = insert k (fst ` set d)"
  by (induction d k v rule: dict_set.induct) auto

lemma distinct_dict_set: "distinct (map fst d) \<Longrightarrow> distinct (map fst (dict_set d k v))"
proof (induction d k v rule: dict_set.induct)
  case (1 k v)
  then show ?case by simp
next
  case (2 k' v' d k v)
  then show ?case using keys_dict_set [of d k v] by (auto simp: image_iff)
qed

lemma keys_dict_update: "fst ` set (dict_update d e) = fst ` set d \<union> fst ` set e"
  by (induction d e rule: dict_update.induct) (auto simp: keys_dict_set)

lemma add_scores_keys:
  assumes "add_scores key k rnk results scores = Inr scores'"
  shows "fst ` set scores' = fst ` set scores \<union> key ` set results"
  using assms
proof (induction results arbitrary: rnk scores)
  case Nil
  then show ?case by simp
next
  case (Cons r rest)
  from Cons.prems have h: "hashable (key r)" "k + int rnk \<noteq> 0"
    by (auto simp: Let_def split: if_splits)
  with Cons.prems have "add_scores key k (Suc rnk) rest
      (dict_set scores (key r)
         ((case map_of scores (key r) of None \<Rightarrow> 0 | Some s \<Rightarrow> s) + 1 / of_int (k + int rnk))) =
      Inr scores'"
    by (simp add: Let_def)
  from Cons.IH [OF this] show ?case by (simp add: keys_dict_set)
qed

lemma add_scores_distinct:
  assumes "add_scores key k rnk results scores = Inr scores'" and "distinct (map fst scores)"
  shows "distinct (map fst scores')"
  using assms
proof (induction results arbitrary: rnk scores)
  case Nil
  then show ?case by simp
next
  case (Cons r rest)
  from Cons.prems have h: "hashable (key r)" "k + int rnk \<noteq> 0"
    by (auto simp: Let_def split: if_splits)
  with Cons.prems have "add_scores key k (Suc rnk) rest
      (dict_set scores (key r)
         ((case map_of scores (key r) of None \<Rightarrow> 0 | Some s \<Rightarrow> s) + 1 / of_int (k + int rnk))) =
      Inr scores'"
    by (simp add: Let_def)
  from Cons.IH [OF this] Cons.prems(2) show ?case by (simp add: distinct_dict_set)
qed

lemma fused_scores_keys:
  assumes "fused_scores bm25_results vector_results k = Inr scores"
  shows "fst ` set scores = bm25_doc_id ` set bm25_results \<union> vector_doc_id ` set vector_results"
    and "distinct (map fst scores)"
proof -
  from assms obtain s1 where a: "add_scores bm25_doc_id k 1 bm25_results [] = Inr s1"
    and b: "add_scores vector_doc_id k 1 vector_results s1 = Inr scores"
    by (auto simp: fused_scores_def split: sum.splits)
  from add_scores_keys [OF a] add_scores_keys [OF b]
  show "fst ` set scores = bm25_doc_id ` set bm25_results \<union> vector_doc_id ` set vector_results"
    by simp
  from add_scores_distinct [OF a] have "distinct (map fst s1)" by simp
  from add_scores_distinct [OF b this] show "distinct (map fst scores)" .
qed

lemma str_int_zero: "str_int 0 = ''0''"
  by code_simp

lemma length_collect_results:
  "length (collect_results xs all_docs acc) \<le> length acc + length xs"
proof (induction xs arbitrary: acc)
  case Nil
  then show ?case by simp
next
  case (Cons x xs)
  obtain d s where x: "x = (d, s)" by (cases x)
  show ?case
  proof (cases "map_of all_docs d")
    case None
    then show ?thesis using Cons.IH [of acc] x by simp
  next
    case (Some doc)
    then show ?thesis
      using Cons.IH [of "acc @ [\<lparr>document = doc, score = s, rank = length acc + 1\<rparr>]"] x
      by simp
  qed
qed

lemma scores_collect_results:
  assumes "fst ` set xs \<subseteq> fst ` set all_docs"
  shows "map score (collect_results xs all_docs acc) = map score acc @ map snd xs"
  using assms
proof (induction xs arbitrary: acc)
  case Nil
  then show ?case by simp
next
  case (Cons x xs)
  obtain d s where x: "x = (d, s)" by (cases x)
  with Cons.prems have "d \<in> fst ` set all_docs" by simp
  then obtain doc where doc: "map_of all_docs d = Some doc"
    by (metis map_of_eq_None_iff not_Some_eq)
  from Cons.prems have "fst ` set xs \<subseteq> fst ` set all_docs" by simp
  from Cons.IH [OF this, of "acc @ [\<lparr>document = doc, score = s, rank = length acc + 1\<rparr>]"]
  show ?case using x doc by simp
qed

lemma length_slice_to: "length (slice_to xs n) \<le> length xs"
  by (auto simp: slice_to_def)

lemma length_slice_to_nonneg: "0 \<le> n \<Longrightarrow> int (length (slice_to xs n)) \<le> n"
  by (simp add: slice_to_def)

lemma slice_to_ten: "slice_to xs 10 = take 10 xs"
  by (simp add: slice_to_def)

lemma reciprocal_rank_fusion_top_ten:
  assumes "reciprocal_rank_fusion bm25_results vector_results k = Inr h"
  shows "\<exists>scores. fused_scores bm25_results vector_results k = Inr scores \<and>
           map score h = map snd (take 10 (sort_key (\<lambda>(doc_id, s). - s) scores)) \<and>
           length h \<le> 10"
proof -
  from assms obtain scores where fs: "fused_scores bm25_results vector_results k = Inr scores"
    by (auto simp: reciprocal_rank_fusion_def split: sum.splits)
  define sorted_docs where "sorted_docs = sort_key (\<lambda>(doc_id, s). - s) scores"
  define all_docs where "all_docs =
     dict_update
       (dict_update [] (map (\<lambda>r. (bm25_doc_id r, document r)) bm25_results))
       (dict_update [] (map (\<lambda>r. (vector_doc_id r, payload r)) vector_results))"
  have h: "h = collect_results (take 10 sorted_docs) all_docs []"
    using assms fs
    by (simp add: reciprocal_rank_fusion_def sorted_docs_def all_docs_def slice_to_ten)
  have "fst ` set all_docs = bm25_doc_id ` set bm25_results \<union> vector_doc_id ` set vector_results"
    by (simp add: all_docs_def keys_dict_update image_image)
  then have keys: "fst ` set all_docs = fst ` set scores"
    using fused_scores_keys(1) [OF fs] by simp
  have "set (take 10 sorted_docs) \<subseteq> set scores"
    using set_take_subset [of 10 sorted_docs] by (simp add: sorted_docs_def)
  then have "fst ` set (take 10 sorted_docs) \<subseteq> fst ` set all_docs"
    using keys by blast
  from scores_collect_results [OF this, of "[]"]
  have "map score h = map snd (take 10 sorted_docs)" using h by simp
  moreover have "length h \<le> 10"
    using length_collect_results [of "take 10 sorted_docs" all_docs "[]"] h by simp
  ultimately show ?thesis using fs by (simp add: sorted_docs_def)
qed

lemma hybrid_search_Inr:
  assumes "hybrid_search sf eq vs r q top_k = Inr rs"
  shows "\<exists>b v p h. bm25_search sf r q 10 = Inr b \<and> eq q = Inr v \<and> vs v 10 = Inr p \<and>
           reciprocal_rank_fusion b p 60 = Inr h \<and> rs = slice_to h top_k"
  using assms by (auto simp: hybrid_search_def split: sum.splits)

lemma example_search_twenty:
  "hybrid_search example_score_fn example_embed (example_vector_search 12) example_retriever
     ''Fever'' 20 = Inr example_top_ten"
  by code_simp

lemma example_search_two:
  "hybrid_search example_score_fn example_embed (example_vector_search 3) example_retriever
     ''Fever'' 2 = Inr (take 2 example_top_ten)"
  by code_simp

lemma example_search_minus_one:
  "hybrid_search example_score_fn example_embed (example_vector_search 3) example_retriever
     ''Fever'' (- 1) = Inr (take 4 example_top_ten)"
  by code_simp

subsection \<open>The claims\<close>

text \<open>
  C1.  Fusing the lexical list \<open>[A, B, C]\<close> with the vector list \<open>[B, A, D]\<close> and the
  constant 60, for four documents with different chunk identifiers: the score table
  holds \<open>1/61 + 1/62\<close> for \<open>A\<close>, \<open>1/62 + 1/61\<close> for \<open>B\<close> and \<open>1/63\<close> for \<open>C\<close> and for
  \<open>D\<close>, and the result is \<open>A, B, C, D\<close> in this order with the ranks 1 to 4.  The two
  ties keep the order in which the documents were first seen, the lexical list
  first.  (The two sums for \<open>A\<close> and \<open>B\<close> have the same terms, so they are equal as
  floats too.)
\<close>

theorem rrf_formula_exactness:
  assumes keys: "distinct [ka, kb, kc, kd]"
    and hash: "hashable ka" "hashable kb" "hashable kc" "hashable kd"
    and ids: "map_of A ''chunk_id'' = Some ka" "map_of B ''chunk_id'' = Some kb"
      "map_of C ''chunk_id'' = Some kc" "map_of D ''chunk_id'' = Some kd"
  shows "fused_scores
           [\<lparr>document = A, score = sa, rank = ra\<rparr>, \<lparr>document = B, score = sb, rank = rb\<rparr>,
            \<lparr>document = C, score = sc, rank = rc\<rparr>]
           [\<lparr>point_id = ib, payload = B, point_score = pb\<rparr>,
            \<lparr>point_id = ia, payload = A, point_score = pa\<rparr>,
            \<lparr>point_id = idd, payload = D, point_score = pd\<rparr>] 60 =
         Inr [(ka, 1 / 61 + 1 / 62), (kb, 1 / 62 + 1 / 61), (kc, 1 / 63), (kd, 1 / 63)] \<and>
         reciprocal_rank_fusion
           [\<lparr>document = A, score = sa, rank = ra\<rparr>, \<lparr>document = B, score = sb, rank = rb\<rparr>,
            \<lparr>document = C, score = sc, rank = rc\<rparr>]
           [\<lparr>point_id = ib, payload = B, point_score = pb\<rparr>,
            \<lparr>point_id = ia, payload = A, point_score = pa\<rparr>,
            \<lparr>point_id = idd, payload = D, point_score = pd\<rparr>] 60 =
         Inr [\<lparr>document = A, score = 1 / 61 + 1 / 62, rank = 1\<rparr>,
              \<lparr>document = B, score = 1 / 62 + 1 / 61, rank = 2\<rparr>,
              \<lparr>document = C, score = 1 / 63, rank = 3\<rparr>,
              \<lparr>document = D, score = 1 / 63, rank = 4\<rparr>]"
proof -
  have ne: "ka \<noteq> kb" "ka \<noteq> kc" "ka \<noteq> kd" "kb \<noteq> kc" "kb \<noteq> kd" "kc \<noteq> kd"
    "kb \<noteq> ka" "kc \<noteq> ka" "kd \<noteq> ka" "kc \<noteq> kb" "kd \<noteq> kb" "kd \<noteq> kc"
    using keys by auto
  have fs: "fused_scores
           [\<lparr>document = A, score = sa, rank = ra\<rparr>, \<lparr>document = B, score = sb, rank = rb\<rparr>,
            \<lparr>document = C, score = sc, rank = rc\<rparr>]
           [\<lparr>point_id = ib, payload = B, point_score = pb\<rparr>,
            \<lparr>point_id = ia, payload = A, point_score = pa\<rparr>,
            \<lparr>point_id = idd, payload = D, point_score = pd\<rparr>] 60 =
         Inr [(ka, 1 / 61 + 1 / 62), (kb, 1 / 62 + 1 / 61), (kc, 1 / 63), (kd, 1 / 63)]"
    using ne hash ids
    by (simp add: fused_scores_def bm25_doc_id_def vector_doc_id_def)
  have srt: "sort_key (\<lambda>(doc_id, s). - s)
      [(ka, (1::rat) / 61 + 1 / 62), (kb, 1 / 62 + 1 / 61), (kc, 1 / 63), (kd, 1 / 63)] =
      [(ka, 1 / 61 + 1 / 62), (kb, 1 / 62 + 1 / 61), (kc, 1 / 63), (kd, 1 / 63)]"
    by simp
  show ?thesis
    using fs srt ne ids
    by (simp add: reciprocal_rank_fusion_def bm25_doc_id_def vector_doc_id_def slice_to_def
        del: sort_key_simps)
qed

theorem rrf_formula_exactness_witness:
  "distinct [PStr ''A'', PStr ''B'', PStr ''C'', PStr ''D''] \<and>
   hashable (PStr ''A'') \<and> map_of (example_doc ''A'') ''chunk_id'' = Some (PStr ''A'') \<and>
   reciprocal_rank_fusion
     [\<lparr>document = example_doc ''A'', score = 3, rank = 1\<rparr>,
      \<lparr>document = example_doc ''B'', score = 2, rank = 2\<rparr>,
      \<lparr>document = example_doc ''C'', score = 1, rank = 3\<rparr>]
     [\<lparr>point_id = 1, payload = example_doc ''B'', point_score = 9 / 10\<rparr>,
      \<lparr>point_id = 0, payload = example_doc ''A'', point_score = 8 / 10\<rparr>,
      \<lparr>point_id = 3, payload = example_doc ''D'', point_score = 7 / 10\<rparr>] 60 =
   Inr [\<lparr>document = example_doc ''A'', score = 1 / 61 + 1 / 62, rank = 1\<rparr>,
        \<lparr>document = example_doc ''B'', score = 1 / 62 + 1 / 61, rank = 2\<rparr>,
        \<lparr>document = example_doc ''C'', score = 1 / 63, rank = 3\<rparr>,
        \<lparr>document = example_doc ''D'', score = 1 / 63, rank = 4\<rparr>]"
  using rrf_formula_exactness
    [of "PStr ''A''" "PStr ''B''" "PStr ''C''" "PStr ''D''"
        "example_doc ''A''" "example_doc ''B''" "example_doc ''C''" "example_doc ''D''"
        3 1 2 2 1 3 1 "9 / 10" 0 "8 / 10" 3 "7 / 10"]
  by (simp add: example_doc_def)

text \<open>
  C2 does not hold on the code.  \<open>index_documents\<close> with no documents hands the empty
  corpus to \<open>BM25Okapi\<close>, whose constructor divides by the number of documents: the
  call raises \<open>ZeroDivisionError\<close>, for every retriever.  A retriever that was never
  indexed still answers every search with the empty list afterwards.  A retriever
  that held an index keeps it, with the document list already emptied, and its next
  search raises \<open>IndexError\<close>.
\<close>

theorem index_empty_documents_raises:
  "bm25_index_documents r [] = (r\<lparr>documents := []\<rparr>, Some ZeroDivisionError) \<and>
   bm25_search sf (fst (bm25_index_documents init_bm25 [])) q top_k = Inr [] \<and>
   bm25_search sf
     (fst (bm25_index_documents
        (fst (bm25_index_documents init_bm25 [[(''text'', PStr ''fever'')]])) [])) q 10 =
     Inl IndexError"
proof (intro conjI)
  show "bm25_index_documents r [] = (r\<lparr>documents := []\<rparr>, Some ZeroDivisionError)"
    by (simp add: bm25_index_documents_def BM25Okapi_def)
  show "bm25_search sf (fst (bm25_index_documents init_bm25 [])) q top_k = Inr []"
    by (simp add: bm25_index_documents_def BM25Okapi_def bm25_search_def init_bm25_def)
  have tok: "tokenize_all [[(''text'', PStr ''fever'')]] = Inr [[''fever'']]"
    by code_simp
  have idx: "bm25_index_documents init_bm25 [[(''text'', PStr ''fever'')]] =
      (\<lparr>bm25 = Some \<lparr>corpus = [[''fever'']]\<rparr>, documents = [[(''text'', PStr ''fever'')]]\<rparr>, None)"
    by (simp add: bm25_index_documents_def tok BM25Okapi_def init_bm25_def
        del: tokenize_all.simps)
  show "bm25_search sf
     (fst (bm25_index_documents
        (fst (bm25_index_documents init_bm25 [[(''text'', PStr ''fever'')]])) [])) q 10 =
     Inl IndexError"
    unfolding idx
    by (simp add: bm25_index_documents_def BM25Okapi_def bm25_search_def get_scores_def
        slice_to_def)
qed

text \<open>
  C3, as the specification states it, fails for the vector list: a vector result
  without chunk identifier is keyed by the string form of its point identifier
  (\<open>0\<close>), not by the string form of its record.
\<close>

theorem fusion_key_fallback_counterexample:
  "map_of (payload point_without_id) ''chunk_id'' = None \<and>
   fused_scores [] [point_without_id] 60 = Inr [(PStr ''0'', 1 / 61)] \<and>
   PStr ''0'' \<noteq> PStr (py_str (PDict (payload point_without_id)))"
  by (simp add: point_without_id_def fused_scores_def vector_doc_id_def str_int_zero
      repr_str_def Let_def)

text \<open>
  C3, amended.  The keys of the score table are exactly the keys of the results of
  the two lists: the chunk identifier where the document has one; otherwise the
  string form of the document for a lexical result, and the string form of the point
  identifier for a vector result.
\<close>

theorem fusion_keys:
  assumes "fused_scores bm25_results vector_results k = Inr scores"
  shows "fst ` set scores =
           (\<lambda>r. case map_of (document r) ''chunk_id'' of
                   Some v \<Rightarrow> v
                 | None \<Rightarrow> PStr (py_str (PDict (document r)))) ` set bm25_results \<union>
           (\<lambda>p. case map_of (payload p) ''chunk_id'' of
                   Some v \<Rightarrow> v
                 | None \<Rightarrow> PStr (str_int (point_id p))) ` set vector_results"
proof -
  have a: "bm25_doc_id = (\<lambda>r. case map_of (document r) ''chunk_id'' of
                   Some v \<Rightarrow> v
                 | None \<Rightarrow> PStr (py_str (PDict (document r))))"
    by (rule ext) (simp add: bm25_doc_id_def)
  have b: "vector_doc_id = (\<lambda>p. case map_of (payload p) ''chunk_id'' of
                   Some v \<Rightarrow> v
                 | None \<Rightarrow> PStr (str_int (point_id p)))"
    by (rule ext) (simp add: vector_doc_id_def split: option.split)
  show ?thesis unfolding a [symmetric] b [symmetric]
    by (rule fused_scores_keys(1) [OF assms])
qed

theorem fusion_keys_witness:
  "fused_scores
     [\<lparr>document = [(''text'', PStr ''x'')], score = 3, rank = 1\<rparr>,
      \<lparr>document = example_doc ''A'', score = 2, rank = 2\<rparr>]
     [point_without_id, \<lparr>point_id = 7, payload = example_doc ''A'', point_score = 1\<rparr>] 60 =
   Inr [(PStr (py_str (PDict [(''text'', PStr ''x'')])), 1 / 61),
        (PStr ''A'', 1 / 62 + 1 / 62), (PStr ''0'', 1 / 61)] \<and>
   fst ` set [(PStr (py_str (PDict [(''text'', PStr ''x'')])), 1 / 61 :: rat),
        (PStr ''A'', 1 / 62 + 1 / 62), (PStr ''0'', 1 / 61)] =
     (\<lambda>r. case map_of (document r) ''chunk_id'' of
             Some v \<Rightarrow> v
           | None \<Rightarrow> PStr (py_str (PDict (document r)))) `
       set [\<lparr>document = [(''text'', PStr ''x'')], score = 3, rank = 1\<rparr>,
            \<lparr>document = example_doc ''A'', score = 2, rank = 2\<rparr>] \<union>
     (\<lambda>p. case map_of (payload p) ''chunk_id'' of
             Some v \<Rightarrow> v
           | None \<Rightarrow> PStr (str_int (point_id p))) `
       set [point_without_id, \<lparr>point_id = 7, payload = example_doc ''A'', point_score = 1\<rparr>]"
proof -
  have h: "fused_scores
     [\<lparr>document = [(''text'', PStr ''x'')], score = 3, rank = 1\<rparr>,
      \<lparr>document = example_doc ''A'', score = 2, rank = 2\<rparr>]
     [point_without_id, \<lparr>point_id = 7, payload = example_doc ''A'', point_score = 1\<rparr>] 60 =
   Inr [(PStr (py_str (PDict [(''text'', PStr ''x'')])), 1 / 61),
        (PStr ''A'', 1 / 62 + 1 / 62), (PStr ''0'', 1 / 61)]"
    by (simp add: point_without_id_def fused_scores_def vector_doc_id_def bm25_doc_id_def
        str_int_zero repr_str_def Let_def example_doc_def)
  from fusion_keys [OF h] h show ?thesis by blast
qed

text \<open>
  C4, as the specification states it, fails for a negative \<open>top_k\<close>: the slice
  \<^verbatim>\<open>hybrid_results[:-1]\<close> drops the last fused result only, so four results are
  returned for \<open>top_k = -1\<close>.
\<close>

theorem hybrid_search_rank_bound_counterexample:
  "hybrid_search example_score_fn example_embed (example_vector_search 3) example_retriever
     ''Fever'' (- 1) = Inr (take 4 example_top_ten) \<and>
   \<not> int (length (take 4 example_top_ten)) \<le> - 1"
  using example_search_minus_one by simp

text \<open>
  C4, amended.  For every query and every \<open>top_k\<close> that is not negative, a hybrid
  search that returns gives at most \<open>top_k\<close> results; and when the lexical and the
  vector search both find nothing, the hybrid search returns the empty list, for every
  query and every \<open>top_k\<close>.
\<close>

theorem hybrid_search_rank_bound:
  "(hybrid_search sf eq vs r q top_k = Inr rs \<and> 0 \<le> top_k \<longrightarrow> int (length rs) \<le> top_k) \<and>
   (bm25_search sf r q 10 = Inr [] \<and> eq q = Inr v \<and> vs v 10 = Inr [] \<longrightarrow>
      hybrid_search sf eq vs r q top_k = Inr [])"
proof (intro conjI impI)
  assume a: "hybrid_search sf eq vs r q top_k = Inr rs \<and> 0 \<le> top_k"
  then obtain h where "rs = slice_to h top_k"
    using hybrid_search_Inr [of sf eq vs r q top_k rs] by blast
  then show "int (length rs) \<le> top_k"
    using a length_slice_to_nonneg [of top_k h] by simp
next
  assume "bm25_search sf r q 10 = Inr [] \<and> eq q = Inr v \<and> vs v 10 = Inr []"
  then show "hybrid_search sf eq vs r q top_k = Inr []"
    by (simp add: hybrid_search_def reciprocal_rank_fusion_def fused_scores_def slice_to_def)
qed

theorem hybrid_search_rank_bound_witness:
  "hybrid_search example_score_fn example_embed (example_vector_search 3) example_retriever
     ''Fever'' 2 = Inr (take 2 example_top_ten) \<and> (0::int) \<le> 2 \<and>
   int (length (take 2 example_top_ten)) \<le> 2 \<and>
   bm25_search example_score_fn init_bm25 ''Fever'' 10 = Inr [] \<and>
   example_embed ''Fever'' = Inr 5 \<and>
   example_vector_search 0 5 10 = Inr [] \<and>
   hybrid_search example_score_fn example_embed (example_vector_search 0) init_bm25 ''Fever'' 5
     = Inr []"
  using hybrid_search_rank_bound
     [of example_score_fn example_embed "example_vector_search 3" example_retriever "''Fever''" 2
         "take 2 example_top_ten" 5]
    hybrid_search_rank_bound
     [of example_score_fn example_embed "example_vector_search 0" init_bm25 "''Fever''" 5 "[]" 5]
    example_search_two
  by (simp add: bm25_search_def init_bm25_def example_embed_def example_vector_search_def)

text \<open>
  C9.  For every query and every \<open>top_k\<close>, a hybrid search that returns gives at most
  ten results: the fusion keeps the first ten entries of the score table sorted by
  falling score, so its result has at most ten entries, in falling order of score,
  and the cut to \<open>top_k\<close> is applied to that list.
\<close>

theorem hybrid_search_at_most_ten:
  assumes "hybrid_search sf eq vs r q top_k = Inr rs"
  shows "length rs \<le> 10 \<and>
         (\<exists>b v p scores h.
            bm25_search sf r q 10 = Inr b \<and> eq q = Inr v \<and> vs v 10 = Inr p \<and>
            fused_scores b p 60 = Inr scores \<and>
            reciprocal_rank_fusion b p 60 = Inr h \<and>
            map score h = map snd (take 10 (sort_key (\<lambda>(doc_id, s). - s) scores)) \<and>
            sorted (map (\<lambda>x. - score x) h) \<and>
            length h \<le> 10 \<and>
            rs = slice_to h top_k)"
proof -
  from hybrid_search_Inr [OF assms]
  obtain b v p h where b: "bm25_search sf r q 10 = Inr b" and v: "eq q = Inr v"
    and p: "vs v 10 = Inr p" and h: "reciprocal_rank_fusion b p 60 = Inr h"
    and rs: "rs = slice_to h top_k" by blast
  from reciprocal_rank_fusion_top_ten [OF h]
  obtain scores where fs: "fused_scores b p 60 = Inr scores"
    and sc: "map score h = map snd (take 10 (sort_key (\<lambda>(doc_id, s). - s) scores))"
    and len: "length h \<le> 10" by blast
  have "sorted (map (\<lambda>(doc_id, s). - s) (sort_key (\<lambda>(doc_id, s). - s) scores))"
    by (rule sorted_sort_key)
  then have "sorted (take 10 (map (\<lambda>(doc_id, s). - s) (sort_key (\<lambda>(doc_id, s). - s) scores)))"
    by (rule sorted_wrt_take)
  then have "sorted (map uminus (map snd (take 10 (sort_key (\<lambda>(doc_id, s). - s) scores))))"
    by (simp add: take_map split_def comp_def)
  then have srt: "sorted (map (\<lambda>x. - score x) h)"
    using sc [symmetric] by (simp add: comp_def)
  have "length rs \<le> 10"
    using len length_slice_to [of h top_k] rs by simp
  with b v p fs h sc srt len rs show ?thesis by blast
qed

theorem hybrid_search_at_most_ten_witness:
  "hybrid_search example_score_fn example_embed (example_vector_search 12) example_retriever
     ''Fever'' 20 = Inr example_top_ten \<and>
   length example_top_ten \<le> 10 \<and> (10::int) < 20"
  using hybrid_search_at_most_ten [OF example_search_twenty] example_search_twenty
  by simp

end
